theory Spec2Isabelle
  imports Main "HOL-Library.Word"
begin

section \<open>JavaScript values used by the event-stream engine\<close>

text \<open>
  A JavaScript string is a sequence of UTF-16 code units. The engine of
  \<^verbatim>\<open>src/dahua.ts\<close> only ever splits strings at a code unit, drops a prefix, keeps a
  suffix, concatenates, and converts to a number, so a list of 16-bit words is an exact
  model. \<open>str\<close> embeds an ASCII literal.
\<close>

type_synonym js_char = "16 word"
type_synonym js_string = "js_char list"

definition str :: "string \<Rightarrow> js_string" where
  "str s = map (\<lambda>c. of_nat (of_char c)) s"

definition LF :: js_char where "LF = 10"
definition semicolon :: js_char where "semicolon = 59"
definition equals_sign :: js_char where "equals_sign = 61"
definition comma :: js_char where "comma = 44"
definition dquote :: js_char where "dquote = 34"

text \<open>
  \<^verbatim>\<open>s.split(sep)\<close> for a one-unit separator: the pieces between the separators, always
  at least one piece (\<^verbatim>\<open>"".split(";")\<close> is \<^verbatim>\<open>[""]\<close>).
\<close>

fun js_split :: "'a \<Rightarrow> 'a list \<Rightarrow> 'a list list" where
  "js_split sep [] = [[]]"
| "js_split sep (c # cs) =
     (if c = sep then [] # js_split sep cs
      else (case js_split sep cs of [] \<Rightarrow> [[c]] | l # ls \<Rightarrow> (c # l) # ls))"

text \<open>\<^verbatim>\<open>s.includes(c)\<close> for a one-unit needle, and \<^verbatim>\<open>s.substr(n)\<close> (the empty string when
  \<open>n\<close> is past the end).\<close>

definition js_includes :: "'a \<Rightarrow> 'a list \<Rightarrow> bool" where
  "js_includes c s = (c \<in> set s)"

definition substr :: "nat \<Rightarrow> 'a list \<Rightarrow> 'a list" where
  "substr n s = drop n s"

text \<open>\<^verbatim>\<open>a[i]\<close> on an array: \<open>None\<close> is \<^verbatim>\<open>undefined\<close>, on which a method call raises
  a TypeError.\<close>

definition js_index :: "'a list \<Rightarrow> nat \<Rightarrow> 'a option" where
  "js_index a i = (if i < length a then Some (a ! i) else None)"

datatype js_error = TypeError

subsection \<open>Numbers: \<^verbatim>\<open>Number(string)\<close>\<close>

text \<open>
  \<^verbatim>\<open>Number(s)\<close> trims white space and reads a \<^verbatim>\<open>StrNumericLiteral\<close>; the empty string is
  0 and text outside the grammar is \<^verbatim>\<open>NaN\<close>. The result is a double. The model holds
  the value exactly where it is an integer written in plain decimal digits of magnitude
  at most \<open>2^53 = 9007199254740992\<close> (\<open>JSInt\<close>, negative zero left out); any other text of the grammar
  (fractions, exponents, \<^verbatim>\<open>Infinity\<close>, hexadecimal, larger integers) is a number that is
  not \<^verbatim>\<open>NaN\<close> and is kept unevaluated with its text (\<open>JSOther\<close>).
\<close>

datatype js_number = JSInt int | JSNaN | JSOther js_string

definition js_whitespace :: "js_char \<Rightarrow> bool" where
  "js_whitespace c =
     (c = 9 \<or> c = 10 \<or> c = 11 \<or> c = 12 \<or> c = 13 \<or> c = 32 \<or> c = 160 \<or> c = 5760
      \<or> (8192 \<le> c \<and> c \<le> 8202) \<or> c = 8232 \<or> c = 8233 \<or> c = 8239 \<or> c = 8287
      \<or> c = 12288 \<or> c = 65279)"

definition js_trim :: "js_string \<Rightarrow> js_string" where
  "js_trim s = rev (dropWhile js_whitespace (rev (dropWhile js_whitespace s)))"

definition is_digit :: "js_char \<Rightarrow> bool" where
  "is_digit c = (48 \<le> c \<and> c \<le> 57)"

definition is_hex_digit :: "js_char \<Rightarrow> bool" where
  "is_hex_digit c = (is_digit c \<or> (65 \<le> c \<and> c \<le> 70) \<or> (97 \<le> c \<and> c \<le> 102))"

definition DecimalDigits :: "js_string \<Rightarrow> bool" where
  "DecimalDigits ds = (ds \<noteq> [] \<and> list_all is_digit ds)"

definition strip_sign :: "js_string \<Rightarrow> js_string" where
  "strip_sign t = (case t of [] \<Rightarrow> [] | c # r \<Rightarrow> if c = 43 \<or> c = 45 then r else t)"

definition ExponentPart_opt :: "js_string \<Rightarrow> bool" where
  "ExponentPart_opt r =
     (case r of [] \<Rightarrow> True
      | c # r' \<Rightarrow> (c = 101 \<or> c = 69) \<and> DecimalDigits (strip_sign r'))"

definition StrUnsignedDecimalLiteral :: "js_string \<Rightarrow> bool" where
  "StrUnsignedDecimalLiteral u =
     (u = str ''Infinity'' \<or>
      (let ip = takeWhile is_digit u; r = dropWhile is_digit u in
       case r of [] \<Rightarrow> ip \<noteq> []
       | c # r2 \<Rightarrow>
           if c = 46
           then (let fp = takeWhile is_digit r2; r3 = dropWhile is_digit r2
                 in (ip \<noteq> [] \<or> fp \<noteq> []) \<and> ExponentPart_opt r3)
           else ip \<noteq> [] \<and> ExponentPart_opt r))"

definition NonDecimalIntegerLiteral :: "js_string \<Rightarrow> bool" where
  "NonDecimalIntegerLiteral t =
     (case t of
        z # x # ds \<Rightarrow>
          z = 48 \<and> ds \<noteq> [] \<and>
          (if x = 120 \<or> x = 88 then list_all is_hex_digit ds
           else if x = 111 \<or> x = 79 then list_all (\<lambda>c. 48 \<le> c \<and> c \<le> 55) ds
           else if x = 98 \<or> x = 66 then list_all (\<lambda>c. c = 48 \<or> c = 49) ds
           else False)
      | _ \<Rightarrow> False)"

definition StrNumericLiteral :: "js_string \<Rightarrow> bool" where
  "StrNumericLiteral t =
     (StrUnsignedDecimalLiteral (strip_sign t) \<or> NonDecimalIntegerLiteral t)"

definition digit_value :: "js_char \<Rightarrow> int" where
  "digit_value c = uint c - 48"

definition decimal_value :: "js_string \<Rightarrow> int" where
  "decimal_value ds = foldl (\<lambda>acc c. 10 * acc + digit_value c) 0 ds"

definition Number :: "js_string \<Rightarrow> js_number" where
  "Number s =
     (let t = js_trim s in
      if t = [] then JSInt 0
      else if DecimalDigits (strip_sign t) then
        (let neg = (hd t = 45); v = decimal_value (strip_sign t) in
         if v \<le> 9007199254740992 \<and> \<not> (neg \<and> v = 0)
         then JSInt (if neg then - v else v)
         else JSOther t)
      else if StrNumericLiteral t then JSOther t
      else JSNaN)"

section \<open>The signals of the event channel\<close>

text \<open>
  \<^verbatim>\<open>parseEventData\<close> returns \<^verbatim>\<open>{action, index, eventType}\<close>; a \<^verbatim>\<open>DahuaAlarm\<close> adds the
  host. The payloads of the debug and error signals are template strings in the source;
  they are kept here as the template's name with the values it interpolates.
\<close>

record parsed_event =
  action :: js_string
  index :: js_number
  eventType :: js_string

record DahuaAlarm = parsed_event +
  host :: js_string

datatype debug_message =
    Connected js_string
  | ConnectionResponse js_string nat
  | ResponseReceived js_string js_string
  | SocketClosed js_string
  | SocketErrored js_string js_string
  | SocketEnded js_string
  | SendingDigestAuth nat
  | CouldNotParse js_string

datatype error_details =
    DigestBuildFailed js_error
  | StatusCode nat js_string
  | NoResponse js_string
  | RequestNotSent js_string

record DahuaError =
  error :: js_string
  errorDetails :: error_details

datatype signal =
    Alarm DahuaAlarm
  | Debug debug_message
  | Error DahuaError
  | Reconnecting js_string nat

fun alarms_of :: "signal list \<Rightarrow> DahuaAlarm list" where
  "alarms_of [] = []"
| "alarms_of (Alarm a # ss) = a # alarms_of ss"
| "alarms_of (_ # ss) = alarms_of ss"

section \<open>The event record parser: \<^verbatim>\<open>parseEventData\<close>\<close>

text \<open>
  The three locals \<^verbatim>\<open>action\<close>, \<^verbatim>\<open>index\<close>, \<^verbatim>\<open>eventType\<close> start at the sentinel values and
  are assigned by the callback of \<^verbatim>\<open>forEach\<close>, one after the other. A method call on
  \<^verbatim>\<open>undefined\<close> raises a TypeError in the middle of the callback: the assignments made
  before it stay, \<^verbatim>\<open>forEach\<close> stops, and the \<^verbatim>\<open>catch\<close> clause emits a debug signal. The
  callback therefore returns the locals together with the exception, if any.
\<close>

definition sentinel :: parsed_event where
  "sentinel = \<lparr>action = [], index = JSInt (- 999), eventType = []\<rparr>"

definition on_line :: "parsed_event \<Rightarrow> js_string \<Rightarrow> parsed_event \<times> js_error option" where
  "on_line st event =
     (if js_includes semicolon event then
        (let alarm = js_split semicolon event in
         case js_index alarm 0 of
           None \<Rightarrow> (st, Some TypeError)
         | Some a0 \<Rightarrow>
             (let st1 = st\<lparr>eventType := substr 5 a0\<rparr> in
              case js_index alarm 1 of
                None \<Rightarrow> (st1, Some TypeError)
              | Some a1 \<Rightarrow>
                  (let st2 = st1\<lparr>action := substr 7 a1\<rparr> in
                   case js_index alarm 2 of
                     None \<Rightarrow> (st2, Some TypeError)
                   | Some a2 \<Rightarrow> (st2\<lparr>index := Number (substr 6 a2)\<rparr>, None))))
      else (st, None))"

fun forEach_line :: "parsed_event \<Rightarrow> js_string list \<Rightarrow> parsed_event \<times> js_error option" where
  "forEach_line st [] = (st, None)"
| "forEach_line st (event # rest) =
     (case on_line st event of
        (st', Some e) \<Rightarrow> (st', Some e)
      | (st', None) \<Rightarrow> forEach_line st' rest)"

text \<open>The \<^verbatim>\<open>try\<close> block, and the whole function: the record it returns and the signals it
  emits.\<close>

definition parse_try :: "js_string \<Rightarrow> parsed_event \<times> js_error option" where
  "parse_try data = forEach_line sentinel (js_split LF data)"

definition parseEventData :: "js_string \<Rightarrow> parsed_event \<times> signal list" where
  "parseEventData data =
     (case parse_try data of
        (st, None) \<Rightarrow> (st, [])
      | (st, Some e) \<Rightarrow> (st, [Debug (CouldNotParse data)]))"

text \<open>The listener of the stream's \<^verbatim>\<open>data\<close> event: a debug signal, the parser (with its
  own debug signal, if any), then the alarm stamped with the host.\<close>

definition on_data :: "js_string \<Rightarrow> js_string \<Rightarrow> signal list" where
  "on_data h data =
     (let (event, emitted) = parseEventData data in
      [Debug (ResponseReceived h data)] @ emitted @
      [Alarm \<lparr>action = action event, index = index event, eventType = eventType event,
              host = h\<rparr>])"

subsection \<open>Vocabulary for the parser's properties\<close>

text \<open>
  A line qualifies when it contains a \<^verbatim>\<open>;\<close>. A qualifying line with a single \<^verbatim>\<open>;\<close> has
  only two fields: reading the third raises. \<open>line_fields\<close> follows the specification's
  words: the event type skips a 5-character prefix of the first field, the action a
  7-character prefix of the second, the index a 6-character prefix of the third, which is
  then converted to a number. \<open>completed\<close> is the record after a run of lines none of
  which raises.
\<close>

definition qualifying :: "js_string \<Rightarrow> bool" where
  "qualifying l = js_includes semicolon l"

definition truncated :: "js_string \<Rightarrow> bool" where
  "truncated l = (qualifying l \<and> length (js_split semicolon l) < 3)"

definition line_fields :: "js_string \<Rightarrow> parsed_event" where
  "line_fields l =
     (let alarm = js_split semicolon l in
      \<lparr>action = substr 7 (alarm ! 1), index = Number (substr 6 (alarm ! 2)),
       eventType = substr 5 (alarm ! 0)\<rparr>)"

definition completed :: "js_string list \<Rightarrow> parsed_event" where
  "completed ls = (case filter qualifying ls of [] \<Rightarrow> sentinel | q # qs \<Rightarrow> line_fields (last (q # qs)))"

section \<open>The auth challenge solver\<close>

text \<open>
  \<^verbatim>\<open>header.split(/\s*,\s*/)\<close>: a separator is a comma with the white space around it. At
  each position the pattern matches when the white space starting there is followed by a
  comma; the match then runs over the white space after the comma. Where it does not
  match, the code unit belongs to the current piece.
\<close>

function split_commas :: "js_string \<Rightarrow> js_string list" where
  "split_commas [] = [[]]"
| "split_commas (c # cs) =
     (case dropWhile js_whitespace (c # cs) of
        [] \<Rightarrow> (case split_commas cs of [] \<Rightarrow> [[c]] | p # ps \<Rightarrow> (c # p) # ps)
      | d # ds \<Rightarrow>
          if d = comma then [] # split_commas (dropWhile js_whitespace ds)
          else (case split_commas cs of [] \<Rightarrow> [[c]] | p # ps \<Rightarrow> (c # p) # ps))"
  by pat_completeness auto
termination
proof (relation "measure length", goal_cases)
  case 1
  show ?case by simp
next
  case (2 c cs)
  show ?case by simp
next
  case (3 c cs d ds)
  have "length (dropWhile js_whitespace ds) \<le> length ds"
    by (rule length_dropWhile_le)
  moreover have "length (d # ds) \<le> length (c # cs)"
    using 3(1) length_dropWhile_le [of js_whitespace "c # cs"] by simp
  ultimately show ?case by simp
next
  case (4 c cs d ds)
  show ?case by simp
qed

text \<open>\<^verbatim>\<open>.map(v => v.split('='))\<close>, and a field of the challenge by position:
  \<^verbatim>\<open>authDetails[i][1].replace(/"/g, '')\<close>, which raises when \<^verbatim>\<open>authDetails[i]\<close> or its
  second piece is \<^verbatim>\<open>undefined\<close>.\<close>

definition authDetails :: "js_string \<Rightarrow> js_string list list" where
  "authDetails h = map (js_split equals_sign) (split_commas h)"

definition remove_quotes :: "js_string \<Rightarrow> js_string" where
  "remove_quotes v = filter (\<lambda>c. c \<noteq> dquote) v"

definition challenge_field :: "js_string \<Rightarrow> nat \<Rightarrow> js_error + js_string" where
  "challenge_field h i =
     (case js_index (authDetails h) i of
        None \<Rightarrow> Inl TypeError
      | Some d \<Rightarrow>
          (case js_index d 1 of
             None \<Rightarrow> Inl TypeError
           | Some v \<Rightarrow> Inr (remove_quotes v)))"

text \<open>The decimal text of a counter (\<^verbatim>\<open>'00000000' + count\<close> converts the number), the
  last eight code units (\<^verbatim>\<open>.slice(-8)\<close>), and the hexadecimal text of random bytes
  (\<^verbatim>\<open>.toString('hex')\<close>). The counter starts at 0 and grows by one for each retry, so it
  is a natural number; a double holds it exactly in any run that can happen.\<close>

definition digit :: "nat \<Rightarrow> js_char" where
  "digit d = of_nat (48 + d)"

fun decimal :: "nat \<Rightarrow> js_string" where
  "decimal n = (if n < 10 then [digit n] else decimal (n div 10) @ [digit (n mod 10)])"

declare decimal.simps [simp del]

definition slice_last :: "nat \<Rightarrow> 'a list \<Rightarrow> 'a list" where
  "slice_last k s = drop (length s - k) s"

definition nonceCount :: "nat \<Rightarrow> js_string" where
  "nonceCount count = slice_last 8 (str ''00000000'' @ decimal count)"

definition hex_digit :: "nat \<Rightarrow> js_char" where
  "hex_digit d = (if d < 10 then of_nat (48 + d) else of_nat (87 + d))"

definition toString_hex :: "8 word list \<Rightarrow> js_string" where
  "toString_hex bs = concat (map (\<lambda>b. [hex_digit (unat b div 16), hex_digit (unat b mod 16)]) bs)"

definition quoted :: "js_string \<Rightarrow> js_string" where
  "quoted s = [dquote] @ s @ [dquote]"

text \<open>The target of a connection: the arguments of the constructor. \<^verbatim>\<open>events\<close> is the
  set of watched codes in its insertion order, as \<^verbatim>\<open>Array.from\<close> lists it.\<close>

record target =
  target_host :: js_string
  user :: js_string
  pass :: js_string
  useHttp :: bool
  events :: "js_string list"

fun js_join :: "'a list \<Rightarrow> 'a list list \<Rightarrow> 'a list" where
  "js_join sep [] = []"
| "js_join sep [x] = x"
| "js_join sep (x # y # ys) = x @ sep @ js_join sep (y # ys)"

definition eventsWatchUri :: "target \<Rightarrow> js_string" where
  "eventsWatchUri t =
     str ''/cgi-bin/eventManager.cgi?action=attach&codes=['' @ js_join [comma] (events t) @ str '']''"

text \<open>
  The body of the \<^verbatim>\<open>try\<close> block of the 401 branch, up to the header it stores under
  \<^verbatim>\<open>authorization\<close>: the new header value and the incremented counter, or the TypeError
  of a challenge whose first or third piece is missing or has no \<^verbatim>\<open>=\<close>. The counter,
  the nonce count and the client nonce are computed before the realm and the nonce are
  read, as in the source. \<^verbatim>\<open>md5\<close> is the hexadecimal MD5
  digest of Node's \<^verbatim>\<open>crypto\<close> module and \<open>rnd\<close> the bytes \<^verbatim>\<open>crypto.randomBytes(24)\<close>
  returns; both come from outside the repository.
\<close>

definition digest_header ::
  "(js_string \<Rightarrow> js_string) \<Rightarrow> target \<Rightarrow> js_string \<Rightarrow> nat \<Rightarrow> 8 word list
     \<Rightarrow> js_error + (js_string \<times> nat)" where
  "digest_header md5 t h count rnd =
     (let count' = count + 1;
          nc = nonceCount count';
          cnonce = toString_hex rnd
      in case challenge_field h 0 of
           Inl e \<Rightarrow> Inl e
         | Inr realm \<Rightarrow>
             (case challenge_field h 2 of
                Inl e \<Rightarrow> Inl e
              | Inr nonce \<Rightarrow>
                  (let HA1 = md5 (user t @ str '':'' @ realm @ str '':'' @ pass t);
                       HA2 = md5 (str ''GET:'' @ eventsWatchUri t);
                       response = md5 (HA1 @ str '':'' @ nonce @ str '':'' @ nc @ str '':''
                                        @ cnonce @ str '':auth:'' @ HA2)
                   in Inr (str ''Digest username='' @ quoted (user t)
                           @ str '',realm='' @ quoted realm
                           @ str '',nonce='' @ quoted nonce
                           @ str '',uri='' @ quoted (eventsWatchUri t)
                           @ str '',qop='' @ quoted (str ''auth'')
                           @ str '',algorithm='' @ quoted (str ''MD5'')
                           @ str '',response='' @ quoted response
                           @ str '',nc='' @ quoted nc
                           @ str '',cnonce='' @ quoted cnonce,
                           count'))))"

text \<open>The \<open>k\<close> lowest decimal digits of a number, highest first; the specification's
  zero-padded decimal of a counter; and its reference digest (RFC 2617 for the quality of
  protection \<^verbatim>\<open>auth\<close>): \<open>KD(H(A1), nonce:nc:cnonce:qop:H(A2))\<close> with
  \<open>A1 = user:realm:password\<close>, \<open>A2 = method:uri\<close> and \<open>KD(s, d) = H(s:d)\<close>.\<close>

fun last_digits :: "nat \<Rightarrow> nat \<Rightarrow> js_string" where
  "last_digits 0 n = []"
| "last_digits (Suc k) n = last_digits k (n div 10) @ [digit (n mod 10)]"

definition zero_padded :: "nat \<Rightarrow> nat \<Rightarrow> js_string" where
  "zero_padded k n = replicate (k - length (decimal n)) (digit 0) @ decimal n"

definition reference_response ::
  "(js_string \<Rightarrow> js_string) \<Rightarrow> js_string \<Rightarrow> js_string \<Rightarrow> js_string \<Rightarrow> js_string
     \<Rightarrow> js_string \<Rightarrow> js_string \<Rightarrow> js_string \<Rightarrow> js_string \<Rightarrow> js_string" where
  "reference_response H username realm password httpMethod uri nonce nc cnonce =
     (let A1 = username @ str '':'' @ realm @ str '':'' @ password;
          A2 = httpMethod @ str '':'' @ uri;
          KD = (\<lambda>secret d. H (secret @ str '':'' @ d))
      in KD (H A1) (nonce @ str '':'' @ nc @ str '':'' @ cnonce @ str '':'' @ str ''auth''
                    @ str '':'' @ H A2))"

section \<open>The connection engine\<close>

text \<open>
  The request headers are one object: \<^verbatim>\<open>this.HEADERS\<close> is created once, the request
  configuration is built with \<^verbatim>\<open>headers: this.HEADERS\<close>, and the only write is
  \<^verbatim>\<open>this.HEADERS['authorization'] = ...\<close>, after which the same object is assigned to
  \<^verbatim>\<open>axiosRequestConfig.headers\<close> again. The one configuration object is passed to every
  call of \<^verbatim>\<open>connect\<close> and \<^verbatim>\<open>reconnect\<close>. So the only mutable state of a \<^verbatim>\<open>DahuaEvents\<close>
  object is the header map; a request sent is the configuration with the headers as they
  are when \<^verbatim>\<open>Axios.request\<close> is called.
\<close>

type_synonym headers = "js_string \<rightharpoonup> js_string"

record AxiosBasicCredentials =
  username :: js_string
  password :: js_string

record AxiosRequestConfig =
  url :: js_string
  auth :: AxiosBasicCredentials
  request_headers :: headers
  request_method :: js_string
  responseType :: js_string

record AxiosResponse =
  status :: nat
  response_headers :: headers
  data_statusMessage :: js_string

text \<open>An \<^verbatim>\<open>AxiosError\<close>: with a response; without one but with a request (the message is
  kept); or with neither.\<close>

datatype AxiosError =
    ResponseError AxiosResponse
  | RequestError js_string
  | SetupError js_string

definition initial_HEADERS :: headers where
  "initial_HEADERS = [str ''Accept'' \<mapsto> str ''multipart/x-mixed-replace'']"

definition RECONNECT_INTERNAL_MS :: nat where
  "RECONNECT_INTERNAL_MS = 10000"

definition axiosRequestConfig :: "target \<Rightarrow> headers \<Rightarrow> AxiosRequestConfig" where
  "axiosRequestConfig t H =
     \<lparr>url = (if useHttp t then str ''http'' else str ''https'') @ str ''://'' @ target_host t
              @ eventsWatchUri t,
      auth = \<lparr>username = user t, password = pass t\<rparr>,
      request_headers = H,
      request_method = str ''GET'',
      responseType = str ''stream''\<rparr>"

text \<open>
  What a callback does besides changing the headers: it emits signals, calls
  \<^verbatim>\<open>Axios.request\<close> (the continuations of the promise hold the counter \<^verbatim>\<open>count\<close>),
  attaches the listeners to a response stream, or calls \<^verbatim>\<open>setTimeout\<close> (the callback of
  every timer is \<^verbatim>\<open>connect(axiosRequestConfig, 0)\<close>).
\<close>

datatype action =
    Emit signal
  | Request AxiosRequestConfig nat
  | Listen
  | SetTimeout nat

definition connect :: "target \<Rightarrow> headers \<Rightarrow> nat \<Rightarrow> action list" where
  "connect t H count = [Request (axiosRequestConfig t H) count]"

definition reconnect :: "target \<Rightarrow> nat \<Rightarrow> action list" where
  "reconnect t reconnection_interval_ms =
     [Emit (Reconnecting (target_host t) reconnection_interval_ms),
      SetTimeout reconnection_interval_ms]"

definition on_timeout :: "target \<Rightarrow> headers \<Rightarrow> action list" where
  "on_timeout t H = connect t H 0"

text \<open>The continuation of a fulfilled request, and the listeners of the stream.\<close>

definition on_response :: "target \<Rightarrow> AxiosResponse \<Rightarrow> action list" where
  "on_response t res =
     [Emit (Debug (Connected (target_host t))),
      Emit (Debug (ConnectionResponse (target_host t) (status res))),
      Listen]"

definition on_stream_data :: "target \<Rightarrow> js_string \<Rightarrow> action list" where
  "on_stream_data t data = map Emit (on_data (target_host t) data)"

definition on_close :: "target \<Rightarrow> action list" where
  "on_close t = [Emit (Debug (SocketClosed (target_host t)))]"

definition on_error :: "target \<Rightarrow> js_string \<Rightarrow> action list" where
  "on_error t data =
     Emit (Debug (SocketErrored (target_host t) data)) # reconnect t RECONNECT_INTERNAL_MS"

definition on_end :: "target \<Rightarrow> action list" where
  "on_end t = Emit (Debug (SocketEnded (target_host t))) # reconnect t RECONNECT_INTERNAL_MS"

text \<open>
  The continuation of a rejected request. A 401 with a non-empty \<^verbatim>\<open>www-authenticate\<close>
  header enters the \<^verbatim>\<open>try\<close> block: when it completes, the header is stored, a debug signal
  is emitted and \<^verbatim>\<open>connect\<close> is called with the incremented counter, and the callback
  returns. Every other path falls through to the error signal and \<^verbatim>\<open>reconnect\<close>.
\<close>

definition report :: "target \<Rightarrow> error_details \<Rightarrow> action list" where
  "report t details =
     Emit (Error \<lparr>error = str ''Error received from host: '' @ target_host t,
                  errorDetails = details\<rparr>)
     # reconnect t RECONNECT_INTERNAL_MS"

text \<open>The truth value of a header in a condition: \<^verbatim>\<open>undefined\<close> and the empty string are
  falsy. The test \<^verbatim>\<open>status === 401 && headers['www-authenticate']\<close> yields the header
  when it holds.\<close>

definition truthy :: "js_string option \<Rightarrow> js_string option" where
  "truthy v = (case v of None \<Rightarrow> None | Some s \<Rightarrow> if s = [] then None else Some s)"

definition on_failure ::
  "(js_string \<Rightarrow> js_string) \<Rightarrow> target \<Rightarrow> headers \<Rightarrow> nat \<Rightarrow> AxiosError \<Rightarrow> 8 word list
     \<Rightarrow> headers \<times> action list" where
  "on_failure md5 t H count err rnd =
     (case err of
        ResponseError res \<Rightarrow>
          (case (if status res = 401
                 then truthy (response_headers res (str ''www-authenticate''))
                 else None) of
             Some h \<Rightarrow>
               (case digest_header md5 t h count rnd of
                  Inr (v, count') \<Rightarrow>
                    (let H' = H(str ''authorization'' \<mapsto> v)
                     in (H', Emit (Debug (SendingDigestAuth count')) # connect t H' count'))
                | Inl e \<Rightarrow> (H, report t (DigestBuildFailed e)))
           | None \<Rightarrow> (H, report t (StatusCode (status res) (data_statusMessage res))))
      | RequestError message \<Rightarrow> (H, report t (NoResponse message))
      | SetupError message \<Rightarrow> (H, report t (RequestNotSent message)))"

subsection \<open>The engine and its environment\<close>

text \<open>
  The engine between two callbacks: the headers, the counters held by the requests in
  flight, the number of response streams with listeners attached, the due times of the
  pending timers, and the clock in milliseconds. \<open>sent\<close> and \<open>emitted\<close> record the
  requests issued and the signals emitted so far, in order.
\<close>

record engine =
  HEADERS :: headers
  in_flight :: "nat list"
  streams :: nat
  timers :: "nat list"
  now :: nat
  sent :: "AxiosRequestConfig list"
  emitted :: "signal list"

fun perform :: "engine \<Rightarrow> action \<Rightarrow> engine" where
  "perform s (Emit sig) = s\<lparr>emitted := emitted s @ [sig]\<rparr>"
| "perform s (Request cfg count) = s\<lparr>in_flight := in_flight s @ [count], sent := sent s @ [cfg]\<rparr>"
| "perform s Listen = s\<lparr>streams := Suc (streams s)\<rparr>"
| "perform s (SetTimeout ms) = s\<lparr>timers := timers s @ [now s + ms]\<rparr>"

definition remove_nth :: "nat \<Rightarrow> 'a list \<Rightarrow> 'a list" where
  "remove_nth i xs = take i xs @ drop (Suc i) xs"

text \<open>
  The environment's events: a request in flight is fulfilled or rejected (with the random
  bytes the callback will draw); a stream delivers a chunk, closes, fails or ends; a timer
  fires, which \<^verbatim>\<open>setTimeout\<close> allows only once its delay has passed; time passes. An event
  that cannot happen in the state gives \<open>None\<close>.
\<close>

datatype event =
    Fulfilled nat AxiosResponse
  | Rejected nat AxiosError "8 word list"
  | StreamData js_string
  | StreamClose
  | StreamError js_string
  | StreamEnd
  | TimerFires nat
  | TimePasses nat

fun step :: "(js_string \<Rightarrow> js_string) \<Rightarrow> target \<Rightarrow> engine \<Rightarrow> event \<Rightarrow> engine option" where
  "step md5 t s (Fulfilled i res) =
     (if i < length (in_flight s)
      then Some (foldl perform (s\<lparr>in_flight := remove_nth i (in_flight s)\<rparr>) (on_response t res))
      else None)"
| "step md5 t s (Rejected i err rnd) =
     (if i < length (in_flight s)
      then (let (H', acts) = on_failure md5 t (HEADERS s) (in_flight s ! i) err rnd
            in Some (foldl perform
                       (s\<lparr>HEADERS := H', in_flight := remove_nth i (in_flight s)\<rparr>) acts))
      else None)"
| "step md5 t s (StreamData data) =
     (if 0 < streams s then Some (foldl perform s (on_stream_data t data)) else None)"
| "step md5 t s StreamClose =
     (if 0 < streams s
      then Some (foldl perform (s\<lparr>streams := streams s - 1\<rparr>) (on_close t))
      else None)"
| "step md5 t s (StreamError data) =
     (if 0 < streams s then Some (foldl perform s (on_error t data)) else None)"
| "step md5 t s StreamEnd =
     (if 0 < streams s then Some (foldl perform s (on_end t)) else None)"
| "step md5 t s (TimerFires i) =
     (if i < length (timers s) \<and> timers s ! i \<le> now s
      then Some (foldl perform (s\<lparr>timers := remove_nth i (timers s)\<rparr>) (on_timeout t (HEADERS s)))
      else None)"
| "step md5 t s (TimePasses d) = Some (s\<lparr>now := now s + d\<rparr>)"

fun run :: "(js_string \<Rightarrow> js_string) \<Rightarrow> target \<Rightarrow> engine \<Rightarrow> event list \<Rightarrow> engine option" where
  "run md5 t s [] = Some s"
| "run md5 t s (e # es) = (case step md5 t s e of None \<Rightarrow> None | Some s' \<Rightarrow> run md5 t s' es)"

text \<open>The constructor: the headers hold \<^verbatim>\<open>Accept\<close> only, and \<^verbatim>\<open>connect\<close> is called with
  the counter 0.\<close>

definition DahuaEvents :: "target \<Rightarrow> engine" where
  "DahuaEvents t =
     foldl perform
       \<lparr>HEADERS = initial_HEADERS, in_flight = [], streams = 0, timers = [], now = 0,
        sent = [], emitted = []\<rparr>
       (connect t initial_HEADERS 0)"

subsection \<open>Vocabulary for the engine's properties\<close>

text \<open>
  The challenge of the specification: the realm and the nonce of a rejection that is a 401
  with a \<^verbatim>\<open>www-authenticate\<close> header from which both can be extracted. And the header value
  the specification describes: the scheme \<^verbatim>\<open>Digest\<close> and the nine fields, each as
  \<^verbatim>\<open>key="value"\<close>, separated by commas.
\<close>

definition auth_challenge :: "AxiosError \<Rightarrow> (js_string \<times> js_string) option" where
  "auth_challenge err =
     (case err of
        ResponseError res \<Rightarrow>
          (case (if status res = 401
                 then truthy (response_headers res (str ''www-authenticate''))
                 else None) of
             Some h \<Rightarrow>
               (case (challenge_field h 0, challenge_field h 2) of
                  (Inr realm, Inr nonce) \<Rightarrow> Some (realm, nonce)
                | _ \<Rightarrow> None)
           | None \<Rightarrow> None)
      | _ \<Rightarrow> None)"








definition digest_fields :: "(js_string \<times> js_string) list \<Rightarrow> js_string" where
  "digest_fields kvs =
     str ''Digest '' @ js_join [comma] (map (\<lambda>(k, v). k @ [equals_sign] @ quoted v) kvs)"

definition authorization_for ::
  "(js_string \<Rightarrow> js_string) \<Rightarrow> target \<Rightarrow> js_string \<Rightarrow> js_string \<Rightarrow> nat \<Rightarrow> 8 word list
     \<Rightarrow> js_string" where
  "authorization_for md5 t realm nonce n rnd =
     digest_fields
       [(str ''username'', user t), (str ''realm'', realm), (str ''nonce'', nonce),
        (str ''uri'', eventsWatchUri t), (str ''qop'', str ''auth''),
        (str ''algorithm'', str ''MD5''),
        (str ''response'',
           reference_response md5 (user t) realm (pass t) (str ''GET'') (eventsWatchUri t)
             nonce (nonceCount n) (toString_hex rnd)),
        (str ''nc'', nonceCount n), (str ''cnonce'', toString_hex rnd)]"

subsection \<open>The specification's end-to-end scenario\<close>

text \<open>The target, the challenge of the first 401, the 24 random bytes drawn for the client
  nonce, a rejection without a response and a fulfilled request.\<close>

definition scenario_target :: target where
  "scenario_target =
     \<lparr>target_host = str ''10.0.0.5'', user = str ''admin'', pass = str ''pass'',
      useHttp = False, events = [str ''VideoMotion'']\<rparr>"

definition scenario_challenge :: js_string where
  "scenario_challenge =
     str ''Digest realm=\"Login to X\",qop=\"auth\",nonce=\"abc123\",opaque=\"xyz\"''"



definition scenario_401 :: AxiosError where
  "scenario_401 =
     ResponseError \<lparr>status = 401,
                    response_headers = [str ''www-authenticate'' \<mapsto> scenario_challenge],
                    data_statusMessage = str ''Unauthorized''\<rparr>"

definition scenario_random :: "8 word list" where
  "scenario_random =
     [0, 1, 2, 3, 4, 5, 6, 7, 8, 9, 10, 11, 12, 13, 14, 15, 16, 17, 18, 19, 20, 21, 22, 23]"

definition scenario_timeout :: AxiosError where
  "scenario_timeout = RequestError (str ''timeout of 1000ms exceeded'')"

definition scenario_200 :: AxiosResponse where
  "scenario_200 =
     \<lparr>status = 200, response_headers = Map.empty, data_statusMessage = str ''OK''\<rparr>"

section \<open>Properties of the event record parser\<close>

subsection \<open>Splitting, and one pass of the callback\<close>

lemma js_split_not_Nil: "js_split sep s \<noteq> []"
  by (induction s) (auto split: list.splits)

lemma length_js_split: "length (js_split sep s) = Suc (length (filter (\<lambda>c. c = sep) s))"
  by (induction s) (auto split: list.splits simp: js_split_not_Nil)

lemma includes_length_js_split: "js_includes sep s \<Longrightarrow> 2 \<le> length (js_split sep s)"
  unfolding length_js_split js_includes_def
  by (induction s) auto

lemma on_line_ignored: "\<not> qualifying l \<Longrightarrow> on_line st l = (st, None)"
  by (simp add: on_line_def qualifying_def)

lemma on_line_complete:
  assumes "qualifying l" "\<not> truncated l"
  shows "on_line st l = (line_fields l, None)"
proof -
  from assms have "3 \<le> length (js_split semicolon l)"
    by (simp add: truncated_def)
  then show ?thesis using assms(1)
    by (cases st) (simp add: on_line_def qualifying_def js_index_def line_fields_def Let_def js_split_not_Nil)
qed

lemma on_line_truncated:
  assumes "truncated l"
  shows "on_line st l =
     (st\<lparr>eventType := substr 5 (js_split semicolon l ! 0),
         action := substr 7 (js_split semicolon l ! 1)\<rparr>, Some TypeError)"
proof -
  from assms have q: "js_includes semicolon l" and "length (js_split semicolon l) < 3"
    by (simp_all add: truncated_def qualifying_def)
  moreover from q have "2 \<le> length (js_split semicolon l)"
    by (rule includes_length_js_split)
  ultimately show ?thesis
    by (simp add: on_line_def js_index_def Let_def js_split_not_Nil)
qed

subsection \<open>The loop over the lines\<close>

text \<open>
  While no line raises, the locals hold the fields of the last qualifying line seen so
  far. The first line that raises ends the loop with its event type and action assigned
  and the index left as it was.
\<close>

lemma forEach_line_complete:
  "list_all (\<lambda>l. \<not> truncated l) ls \<Longrightarrow>
   forEach_line st ls =
     ((case filter qualifying ls of [] \<Rightarrow> st | q # qs \<Rightarrow> line_fields (last (q # qs))), None)"
proof (induction ls arbitrary: st)
  case Nil
  then show ?case by simp
next
  case (Cons l ls)
  then have rest: "list_all (\<lambda>l. \<not> truncated l) ls" and l: "\<not> truncated l" by simp_all
  show ?case
  proof (cases "qualifying l")
    case False
    then show ?thesis using Cons.IH [OF rest, of st] by (simp add: on_line_ignored)
  next
    case True
    then show ?thesis using Cons.IH [OF rest, of "line_fields l"] l
      by (simp add: on_line_complete split: list.splits)
  qed
qed

lemma forEach_line_append:
  "forEach_line st (xs @ ys) =
     (case forEach_line st xs of (st', None) \<Rightarrow> forEach_line st' ys | (st', Some e) \<Rightarrow> (st', Some e))"
  by (induction xs arbitrary: st) (auto split: prod.splits option.splits)

lemma forEach_line_first_truncated:
  assumes "list_all (\<lambda>l. \<not> truncated l) pre" "truncated l"
  shows "forEach_line st (pre @ l # post) =
     ((fst (forEach_line st pre))\<lparr>eventType := substr 5 (js_split semicolon l ! 0),
         action := substr 7 (js_split semicolon l ! 1)\<rparr>, Some TypeError)"
  using assms by (simp add: forEach_line_append forEach_line_complete on_line_truncated)

lemma find_split:
  "List.find P xs = Some l \<Longrightarrow> \<exists>post. xs = takeWhile (\<lambda>x. \<not> P x) xs @ l # post"
  by (induction xs) (auto split: if_splits)

lemma find_Some_holds: "List.find P xs = Some l \<Longrightarrow> P l"
  by (induction xs) (auto split: if_splits)

lemma find_None_all: "List.find P xs = None \<Longrightarrow> list_all (\<lambda>x. \<not> P x) xs"
  by (induction xs) (auto split: if_splits)

lemma takeWhile_all: "list_all P (takeWhile P xs)"
  by (induction xs) auto

lemma parse_try_char:
  "parse_try data =
     (case List.find truncated (js_split LF data) of
        None \<Rightarrow> (completed (js_split LF data), None)
      | Some l \<Rightarrow>
          (\<lparr>action = substr 7 (js_split semicolon l ! 1),
            index = index (completed (takeWhile (\<lambda>x. \<not> truncated x) (js_split LF data))),
            eventType = substr 5 (js_split semicolon l ! 0)\<rparr>, Some TypeError))"
proof (cases "List.find truncated (js_split LF data)")
  case None
  then show ?thesis
    using forEach_line_complete [OF find_None_all [OF None], of sentinel]
    by (simp add: parse_try_def completed_def)
next
  case (Some l)
  define pre where "pre = takeWhile (\<lambda>x. \<not> truncated x) (js_split LF data)"
  from find_split [OF Some] obtain post where sp: "js_split LF data = pre @ l # post"
    unfolding pre_def by blast
  have pre: "list_all (\<lambda>l. \<not> truncated l) pre"
    unfolding pre_def by (rule takeWhile_all)
  have l: "truncated l" using Some by (rule find_Some_holds)
  have "forEach_line sentinel pre = (completed pre, None)"
    using forEach_line_complete [OF pre, of sentinel] by (simp add: completed_def)
  then have "parse_try data =
     ((completed pre)\<lparr>eventType := substr 5 (js_split semicolon l ! 0),
         action := substr 7 (js_split semicolon l ! 1)\<rparr>, Some TypeError)"
    using forEach_line_first_truncated [OF pre l, of sentinel post] sp
    by (simp add: parse_try_def)
  then show ?thesis using Some
    by (cases "completed pre") (simp add: pre_def)
qed


subsection \<open>Evaluation on concrete buffers\<close>

lemmas js_eval = str_def LF_def semicolon_def js_includes_def js_index_def substr_def
  Number_def js_trim_def js_whitespace_def DecimalDigits_def strip_sign_def is_digit_def
  decimal_value_def digit_value_def StrNumericLiteral_def StrUnsignedDecimalLiteral_def
  NonDecimalIntegerLiteral_def ExponentPart_opt_def is_hex_digit_def

lemmas parser_eval = on_data_def parseEventData_def parse_try_def on_line_def sentinel_def
  qualifying_def truncated_def line_fields_def completed_def

subsection \<open>The claims about the parser\<close>

lemma parseEventData_catch:
  "parseEventData data =
     (fst (parse_try data),
      if snd (parse_try data) = None then [] else [Debug (CouldNotParse data)])"
  by (simp add: parseEventData_def split: prod.splits option.splits)

text \<open>
  Claim C3. Whenever a parsing exception occurs inside \<^verbatim>\<open>parseEventData\<close>, the result has to
  be exactly the sentinel record, with no field of a partially parsed record in it. The
  code starts from the sentinel and catches the exception, but it does not restore the
  sentinel in the \<^verbatim>\<open>catch\<close> clause. On the buffer of the two lines
  \<^verbatim>\<open>Code=A;action=Start;index=1\<close> and \<^verbatim>\<open>Code=B;action=Stop\<close> the third field of the second
  line is \<^verbatim>\<open>undefined\<close>, the \<^verbatim>\<open>try\<close> block raises a TypeError, and the record returned is
  the event type and action of the second line with the index of the first: not the
  sentinel, and the record of no line. The \<^verbatim>\<open>data\<close> listener publishes it as an alarm. On
  the single line \<^verbatim>\<open>Code=VideoMotion;action=Start\<close> the record returned keeps the event
  type and the action.
\<close>

theorem parseEventData_returns_mixed_record_on_exception:
  "snd (parse_try (str ''Code=A;action=Start;index=1'' @ [LF] @ str ''Code=B;action=Stop''))
     = Some TypeError
   \<and> parseEventData (str ''Code=A;action=Start;index=1'' @ [LF] @ str ''Code=B;action=Stop'')
     = (\<lparr>action = str ''Stop'', index = JSInt 1, eventType = str ''B''\<rparr>,
        [Debug (CouldNotParse
           (str ''Code=A;action=Start;index=1'' @ [LF] @ str ''Code=B;action=Stop''))])
   \<and> fst (parseEventData
            (str ''Code=A;action=Start;index=1'' @ [LF] @ str ''Code=B;action=Stop''))
       \<noteq> sentinel
   \<and> alarms_of (on_data (str ''10.0.0.5'')
         (str ''Code=A;action=Start;index=1'' @ [LF] @ str ''Code=B;action=Stop''))
     = [\<lparr>action = str ''Stop'', index = JSInt 1, eventType = str ''B'',
         host = str ''10.0.0.5''\<rparr>]
   \<and> snd (parse_try (str ''Code=VideoMotion;action=Start'')) = Some TypeError
   \<and> fst (parseEventData (str ''Code=VideoMotion;action=Start''))
       = \<lparr>action = str ''Start'', index = JSInt (- 999), eventType = str ''VideoMotion''\<rparr>
   \<and> fst (parseEventData (str ''Code=VideoMotion;action=Start'')) \<noteq> sentinel"
  by (simp add: js_eval parser_eval)

text \<open>
  Claim C4, as amended. For every buffer with two or more qualifying lines, none of which
  has a single \<^verbatim>\<open>;\<close>, one call returns exactly the event type, action and index of the
  last qualifying line, and emits no debug signal.
\<close>

theorem last_complete_line_wins:
  assumes "2 \<le> length (filter qualifying (js_split LF data))"
    and "list_all (\<lambda>l. \<not> truncated l) (js_split LF data)"
  shows "parseEventData data =
           (line_fields (last (filter qualifying (js_split LF data))), [])"
proof -
  from assms(1) obtain q qs where "filter qualifying (js_split LF data) = q # qs"
    by (cases "filter qualifying (js_split LF data)") auto
  then show ?thesis
    using forEach_line_complete [OF assms(2), of sentinel]
    by (simp add: parseEventData_def parse_try_def)
qed

text \<open>The theorem at a buffer of two complete records.\<close>

theorem last_complete_line_wins_witness:
  "2 \<le> length (filter qualifying
       (js_split LF (str ''Code=A;action=Start;index=1'' @ [LF] @ str ''Code=B;action=Stop;index=2'')))
   \<and> list_all (\<lambda>l. \<not> truncated l)
       (js_split LF (str ''Code=A;action=Start;index=1'' @ [LF] @ str ''Code=B;action=Stop;index=2''))
   \<and> parseEventData (str ''Code=A;action=Start;index=1'' @ [LF] @ str ''Code=B;action=Stop;index=2'')
       = (\<lparr>action = str ''Stop'', index = JSInt 2, eventType = str ''B''\<rparr>, [])"
  using last_complete_line_wins
    [of "str ''Code=A;action=Start;index=1'' @ [LF] @ str ''Code=B;action=Stop;index=2''"]
  by (simp add: js_eval parser_eval)

text \<open>
  Claim C4 as stated fails: when the first of two qualifying lines has a single \<^verbatim>\<open>;\<close>,
  the loop stops there, and the result holds the event type and action of the first line,
  none of the fields of the last one.
\<close>

theorem truncated_first_line_hides_last_line:
  "length (filter qualifying
       (js_split LF (str ''Code=A;action=Start'' @ [LF] @ str ''Code=B;action=Stop;index=2''))) = 2
   \<and> line_fields (last (filter qualifying
       (js_split LF (str ''Code=A;action=Start'' @ [LF] @ str ''Code=B;action=Stop;index=2''))))
       = \<lparr>action = str ''Stop'', index = JSInt 2, eventType = str ''B''\<rparr>
   \<and> fst (parseEventData (str ''Code=A;action=Start'' @ [LF] @ str ''Code=B;action=Stop;index=2''))
       = \<lparr>action = str ''Start'', index = JSInt (- 999), eventType = str ''A''\<rparr>
   \<and> fst (parseEventData (str ''Code=A;action=Start'' @ [LF] @ str ''Code=B;action=Stop;index=2''))
       \<noteq> line_fields (last (filter qualifying
       (js_split LF (str ''Code=A;action=Start'' @ [LF] @ str ''Code=B;action=Stop;index=2''))))"
  by (simp add: js_eval parser_eval)

text \<open>
  Claim C8. On the chunk \<^verbatim>\<open>Code=VideoMotion;action=Start;index=0\<close> the \<^verbatim>\<open>data\<close> listener of
  a target with host \<open>h\<close> publishes exactly one alarm, with event type
  \<^verbatim>\<open>VideoMotion\<close>, action \<^verbatim>\<open>Start\<close>, index 0 and host \<open>h\<close>.
\<close>

theorem single_motion_line_publishes_one_alarm:
  "alarms_of (on_data h (str ''Code=VideoMotion;action=Start;index=0'')) =
     [\<lparr>action = str ''Start'', index = JSInt 0, eventType = str ''VideoMotion'', host = h\<rparr>]"
  by (simp add: js_eval parser_eval)

text \<open>The same for the host \<^verbatim>\<open>10.0.0.5\<close> of the specification's scenario.\<close>

theorem single_motion_line_witness:
  "alarms_of (on_data (str ''10.0.0.5'') (str ''Code=VideoMotion;action=Start;index=0'')) =
     [\<lparr>action = str ''Start'', index = JSInt 0, eventType = str ''VideoMotion'',
       host = str ''10.0.0.5''\<rparr>]"
  using single_motion_line_publishes_one_alarm [of "str ''10.0.0.5''"] by simp

text \<open>The listener publishes the parser's record, whatever it is.\<close>

lemma alarms_of_on_data:
  "alarms_of (on_data h data) =
     [\<lparr>action = action (fst (parseEventData data)), index = index (fst (parseEventData data)),
       eventType = eventType (fst (parseEventData data)), host = h\<rparr>]"
  by (simp add: on_data_def parseEventData_catch)

text \<open>
  Claim C9. For every chunk the \<^verbatim>\<open>data\<close> listener publishes exactly one alarm, made of
  the parser's record and the target's host; when no line of the chunk qualifies, that
  alarm carries the sentinel fields: empty action, index -999, empty event type.
\<close>

theorem every_chunk_publishes_one_alarm:
  "alarms_of (on_data h data) =
     [\<lparr>action = action (fst (parseEventData data)), index = index (fst (parseEventData data)),
       eventType = eventType (fst (parseEventData data)), host = h\<rparr>]
   \<and> (\<not> list_ex qualifying (js_split LF data) \<longrightarrow>
        alarms_of (on_data h data) =
          [\<lparr>action = [], index = JSInt (- 999), eventType = [], host = h\<rparr>])"
proof (intro conjI impI)
  show "alarms_of (on_data h data) =
     [\<lparr>action = action (fst (parseEventData data)), index = index (fst (parseEventData data)),
       eventType = eventType (fst (parseEventData data)), host = h\<rparr>]"
    by (rule alarms_of_on_data)
next
  assume none: "\<not> list_ex qualifying (js_split LF data)"
  then have "filter qualifying (js_split LF data) = []"
    by (simp add: list_ex_iff filter_empty_conv)
  moreover from none have "list_all (\<lambda>l. \<not> truncated l) (js_split LF data)"
    by (simp add: list_ex_iff list_all_iff truncated_def)
  ultimately have "parse_try data = (sentinel, None)"
    using forEach_line_complete [of "js_split LF data" sentinel] by (simp add: parse_try_def)
  then show "alarms_of (on_data h data) =
          [\<lparr>action = [], index = JSInt (- 999), eventType = [], host = h\<rparr>]"
    by (simp add: alarms_of_on_data parseEventData_catch sentinel_def)
qed

text \<open>The theorem at a chunk holding only a boundary marker and a content-type line.\<close>

theorem every_chunk_publishes_one_alarm_witness:
  "\<not> list_ex qualifying
       (js_split LF (str ''--myboundary'' @ [13, LF] @ str ''Content-Type: text/plain'' @ [13, LF]))
   \<and> alarms_of (on_data (str ''10.0.0.5'')
        (str ''--myboundary'' @ [13, LF] @ str ''Content-Type: text/plain'' @ [13, LF])) =
          [\<lparr>action = [], index = JSInt (- 999), eventType = [], host = str ''10.0.0.5''\<rparr>]"
  using every_chunk_publishes_one_alarm [of "str ''10.0.0.5''"
      "str ''--myboundary'' @ [13, LF] @ str ''Content-Type: text/plain'' @ [13, LF]"]
  by (simp add: js_eval parser_eval)

text \<open>
  Claim C10. There is a line containing a \<^verbatim>\<open>;\<close> whose index field is not numeric,
  \<^verbatim>\<open>Code=X;action=Start;index=abc\<close>: the parser returns the index \<^verbatim>\<open>NaN\<close>, which is
  neither an integer nor the sentinel, and the alarm published carries it unchanged.
\<close>

theorem non_numeric_index_published_as_NaN:
  "\<exists>line. js_includes semicolon line
     \<and> parseEventData line =
         (\<lparr>action = str ''Start'', index = JSNaN, eventType = str ''X''\<rparr>, [])
     \<and> (\<forall>i. index (fst (parseEventData line)) \<noteq> JSInt i)
     \<and> (\<forall>h. alarms_of (on_data h line) =
           [\<lparr>action = str ''Start'', index = JSNaN, eventType = str ''X'', host = h\<rparr>])"
  by (rule exI [of _ "str ''Code=X;action=Start;index=abc''"]) (simp add: js_eval parser_eval)

section \<open>Properties of the auth challenge solver\<close>

subsection \<open>The header built by the source is the header of the specification\<close>

lemmas auth_eval = digest_header_def challenge_field_def authDetails_def remove_quotes_def
  nonceCount_def slice_last_def digit_def toString_hex_def hex_digit_def quoted_def
  eventsWatchUri_def comma_def dquote_def equals_sign_def

lemma digest_header_solved:
  assumes "challenge_field h 0 = Inr realm" and "challenge_field h 2 = Inr nonce"
  shows "digest_header md5 t h count rnd =
           Inr (authorization_for md5 t realm nonce (count + 1) rnd, count + 1)"
  using assms
  by (simp add: digest_header_def authorization_for_def digest_fields_def reference_response_def
      quoted_def str_def comma_def equals_sign_def Let_def)

lemma digest_header_unsolved:
  "challenge_field h 0 = Inl e \<or> challenge_field h 2 = Inl e
     \<Longrightarrow> \<exists>e'. digest_header md5 t h count rnd = Inl e'"
  by (auto simp add: digest_header_def Let_def split: sum.splits)

subsection \<open>The nonce count\<close>

text \<open>Both the padded decimal of a short number and the suffix of a long one are its
  lowest digits, which depend on the number modulo a power of ten only.\<close>

lemma length_decimal_pos: "0 < length (decimal n)"
  by (subst decimal.simps) simp

lemma decimal_small: "n < 10 \<Longrightarrow> decimal n = [digit n]"
  by (subst decimal.simps) simp

lemma decimal_large: "10 \<le> n \<Longrightarrow> decimal n = decimal (n div 10) @ [digit (n mod 10)]"
  by (subst decimal.simps) simp

lemma last_digits_zero: "last_digits k 0 = replicate k (digit 0)"
  by (induction k) (simp_all add: replicate_append_same)

lemma padded_is_last_digits:
  "length (decimal n) \<le> k \<Longrightarrow> replicate (k - length (decimal n)) (digit 0) @ decimal n = last_digits k n"
proof (induction k arbitrary: n)
  case 0
  then show ?case using length_decimal_pos [of n] by simp
next
  case (Suc k)
  show ?case
  proof (cases "n < 10")
    case True
    then show ?thesis by (simp add: decimal_small last_digits_zero)
  next
    case False
    then have d: "decimal n = decimal (n div 10) @ [digit (n mod 10)]"
      by (simp add: decimal_large)
    with Suc.prems have "length (decimal (n div 10)) \<le> k" by simp
    from Suc.IH [OF this] show ?thesis
      by (simp add: d Suc_diff_le)
  qed
qed

lemma suffix_is_last_digits:
  "k \<le> length (decimal n) \<Longrightarrow> drop (length (decimal n) - k) (decimal n) = last_digits k n"
proof (induction k arbitrary: n)
  case 0
  then show ?case by simp
next
  case (Suc k)
  show ?case
  proof (cases "n < 10")
    case True
    with Suc.prems show ?thesis by (simp add: decimal_small)
  next
    case False
    then have d: "decimal n = decimal (n div 10) @ [digit (n mod 10)]"
      by (simp add: decimal_large)
    with Suc.prems have "k \<le> length (decimal (n div 10))" by simp
    from Suc.IH [OF this] show ?thesis
      by (simp add: d)
  qed
qed

lemma last_digits_mod: "last_digits k (n mod 10 ^ k) = last_digits k n"
proof (induction k arbitrary: n)
  case 0
  show ?case by simp
next
  case (Suc k)
  have "(n mod 10 ^ Suc k) div 10 = (n div 10) mod 10 ^ k"
    by (simp add: mod_mult2_eq)
  moreover have "(n mod 10 ^ Suc k) mod 10 = n mod 10"
    by (simp add: mod_mod_cancel)
  ultimately show ?case using Suc.IH [of "n div 10"] by simp
qed

lemma length_decimal_le: "n < 10 ^ k \<Longrightarrow> 0 < k \<Longrightarrow> length (decimal n) \<le> k"
proof (induction k arbitrary: n)
  case 0
  then show ?case by simp
next
  case (Suc k)
  show ?case
  proof (cases "n < 10")
    case True
    then show ?thesis by (simp add: decimal_small)
  next
    case False
    then have d: "decimal n = decimal (n div 10) @ [digit (n mod 10)]"
      by (simp add: decimal_large)
    from False Suc.prems have "0 < k" by (cases k) auto
    moreover from Suc.prems have "n div 10 < 10 ^ k"
      by (simp add: less_mult_imp_div_less mult.commute)
    ultimately have "length (decimal (n div 10)) \<le> k" by (rule Suc.IH [rotated])
    then show ?thesis by (simp add: d)
  qed
qed

lemma nonceCount_last_digits: "nonceCount n = last_digits 8 n"
proof (cases "length (decimal n) \<le> 8")
  case True
  have zeros: "str ''00000000'' = replicate 8 (digit 0)"
    by (simp add: str_def digit_def numeral_eq_Suc)
  from True have "nonceCount n = replicate (8 - length (decimal n)) (digit 0) @ decimal n"
    unfolding nonceCount_def slice_last_def zeros by simp
  then show ?thesis using padded_is_last_digits [OF True] by simp
next
  case False
  have "length (str ''00000000'') = 8"
    by (simp add: str_def)
  with False have "nonceCount n = drop (length (decimal n) - 8) (decimal n)"
    unfolding nonceCount_def slice_last_def by simp
  then show ?thesis using suffix_is_last_digits [of 8 n] False by simp
qed

lemma zero_padded_last_digits: "n < 10 ^ k \<Longrightarrow> 0 < k \<Longrightarrow> zero_padded k n = last_digits k n"
  unfolding zero_padded_def
  by (rule padded_is_last_digits) (rule length_decimal_le)

lemma nonceCount_zero_padded: "nonceCount n = zero_padded 8 (n mod 100000000)"
proof -
  have "n mod 10 ^ 8 < 10 ^ 8" by simp
  then have "zero_padded 8 (n mod 10 ^ 8) = last_digits 8 (n mod 10 ^ 8)"
    by (rule zero_padded_last_digits) simp
  then show ?thesis
    using last_digits_mod [of 8 n] by (simp add: nonceCount_last_digits)
qed

subsection \<open>The pieces of a challenge in the cameras' order\<close>











section \<open>Properties of the connection engine\<close>

subsection \<open>The continuation of a rejected request\<close>

lemmas engine_eval = on_failure_def on_response_def on_stream_data_def on_close_def
  on_error_def on_end_def on_timeout_def connect_def reconnect_def report_def truthy_def
  RECONNECT_INTERNAL_MS_def remove_nth_def DahuaEvents_def auth_challenge_def

lemma on_failure_solved:
  assumes "auth_challenge err = Some (realm, nonce)"
  shows "on_failure md5 t H count err rnd =
     (H(str ''authorization'' \<mapsto> authorization_for md5 t realm nonce (count + 1) rnd),
      [Emit (Debug (SendingDigestAuth (count + 1))),
       Request (axiosRequestConfig t
          (H(str ''authorization'' \<mapsto> authorization_for md5 t realm nonce (count + 1) rnd)))
          (count + 1)])"
proof -
  from assms obtain res h where err: "err = ResponseError res"
    and h: "(if status res = 401
             then truthy (response_headers res (str ''www-authenticate''))
             else None) = Some h"
    and r: "challenge_field h 0 = Inr realm" and n: "challenge_field h 2 = Inr nonce"
    by (auto simp add: auth_challenge_def split: AxiosError.splits option.splits sum.splits)
  show ?thesis
    by (simp add: on_failure_def err h digest_header_solved [OF r n] connect_def Let_def
        del: if_split)
qed

lemma on_failure_unsolved:
  assumes "auth_challenge err = None"
  shows "\<exists>details. on_failure md5 t H count err rnd =
     (H, [Emit (Error \<lparr>error = str ''Error received from host: '' @ target_host t,
                       errorDetails = details\<rparr>),
          Emit (Reconnecting (target_host t) 10000),
          SetTimeout 10000])"
proof (cases err)
  case (ResponseError res)
  show ?thesis
  proof (cases "if status res = 401
                then truthy (response_headers res (str ''www-authenticate''))
                else None")
    case None
    then show ?thesis
      by (simp add: on_failure_def ResponseError report_def reconnect_def
          RECONNECT_INTERNAL_MS_def del: if_split)
  next
    case (Some h)
    with assms ResponseError
    have "(\<exists>e. challenge_field h 0 = Inl e) \<or> (\<exists>e. challenge_field h 2 = Inl e)"
      by (auto simp add: auth_challenge_def split: sum.splits simp del: if_split)
    then obtain e where "digest_header md5 t h count rnd = Inl e"
      using digest_header_unsolved [of h _ md5 t count rnd] by blast
    then show ?thesis
      by (simp add: on_failure_def ResponseError Some report_def reconnect_def
          RECONNECT_INTERNAL_MS_def del: if_split)
  qed
next
  case (RequestError m)
  then show ?thesis
    by (simp add: on_failure_def report_def reconnect_def RECONNECT_INTERNAL_MS_def)
next
  case (SetupError m)
  then show ?thesis
    by (simp add: on_failure_def report_def reconnect_def RECONNECT_INTERNAL_MS_def)
qed

subsection \<open>Single steps of the engine\<close>

lemma step_rejected_solved:
  assumes "i < length (in_flight s)" and "auth_challenge err = Some (realm, nonce)"
  shows "step md5 t s (Rejected i err rnd) =
     Some (s\<lparr>HEADERS := (HEADERS s)(str ''authorization'' \<mapsto>
                  authorization_for md5 t realm nonce (in_flight s ! i + 1) rnd),
             in_flight := remove_nth i (in_flight s) @ [in_flight s ! i + 1],
             sent := sent s @ [axiosRequestConfig t ((HEADERS s)(str ''authorization'' \<mapsto>
                  authorization_for md5 t realm nonce (in_flight s ! i + 1) rnd))],
             emitted := emitted s @ [Debug (SendingDigestAuth (in_flight s ! i + 1))]\<rparr>)"
  using assms(1) by (simp add: on_failure_solved [OF assms(2)])

lemma step_rejected_unsolved:
  assumes "i < length (in_flight s)" and "auth_challenge err = None"
  shows "\<exists>details. step md5 t s (Rejected i err rnd) =
     Some (s\<lparr>in_flight := remove_nth i (in_flight s),
             timers := timers s @ [now s + 10000],
             emitted := emitted s @
               [Error \<lparr>error = str ''Error received from host: '' @ target_host t,
                       errorDetails = details\<rparr>,
                Reconnecting (target_host t) 10000]\<rparr>)"
proof -
  from on_failure_unsolved [OF assms(2), of md5 t "HEADERS s" "in_flight s ! i" rnd]
  obtain details where "on_failure md5 t (HEADERS s) (in_flight s ! i) err rnd =
     (HEADERS s, [Emit (Error \<lparr>error = str ''Error received from host: '' @ target_host t,
                       errorDetails = details\<rparr>),
          Emit (Reconnecting (target_host t) 10000),
          SetTimeout 10000])" by blast
  with assms(1) have "step md5 t s (Rejected i err rnd) =
     Some (s\<lparr>in_flight := remove_nth i (in_flight s),
             timers := timers s @ [now s + 10000],
             emitted := emitted s @
               [Error \<lparr>error = str ''Error received from host: '' @ target_host t,
                       errorDetails = details\<rparr>,
                Reconnecting (target_host t) 10000]\<rparr>)"
    by simp
  then show ?thesis by blast
qed

lemma step_stream_end:
  "0 < streams s \<Longrightarrow> step md5 t s StreamEnd =
     Some (s\<lparr>timers := timers s @ [now s + 10000],
             emitted := emitted s @ [Debug (SocketEnded (target_host t)),
                                     Reconnecting (target_host t) 10000]\<rparr>)"
  by (simp add: on_end_def reconnect_def RECONNECT_INTERNAL_MS_def)

lemma step_stream_error:
  "0 < streams s \<Longrightarrow> step md5 t s (StreamError d) =
     Some (s\<lparr>timers := timers s @ [now s + 10000],
             emitted := emitted s @ [Debug (SocketErrored (target_host t) d),
                                     Reconnecting (target_host t) 10000]\<rparr>)"
  by (simp add: on_error_def reconnect_def RECONNECT_INTERNAL_MS_def)

lemma step_timer:
  "step md5 t s (TimerFires j) =
     (if j < length (timers s) \<and> timers s ! j \<le> now s
      then Some (s\<lparr>timers := remove_nth j (timers s), in_flight := in_flight s @ [0],
                   sent := sent s @ [axiosRequestConfig t (HEADERS s)]\<rparr>)
      else None)"
  by (simp add: on_timeout_def connect_def)

lemma foldl_perform_HEADERS: "HEADERS (foldl perform s acts) = HEADERS s"
proof (induction acts arbitrary: s)
  case Nil
  show ?case by simp
next
  case (Cons a acts)
  then show ?case by (cases a) simp_all
qed

subsection \<open>The scenario, evaluated\<close>

lemmas scenario_eval = scenario_target_def scenario_challenge_def scenario_401_def
  scenario_random_def scenario_timeout_def scenario_200_def

lemmas digest_eval = authorization_for_def digest_fields_def reference_response_def
  decimal.simps axiosRequestConfig_def initial_HEADERS_def

lemma scenario_challenge_fields:
  "challenge_field scenario_challenge 0 = Inr (str ''Login to X'')"
  "challenge_field scenario_challenge 2 = Inr (str ''abc123'')"
  by (simp_all add: scenario_eval auth_eval js_eval)

lemma scenario_auth_challenge:
  "auth_challenge scenario_401 = Some (str ''Login to X'', str ''abc123'')"
  using scenario_challenge_fields
  by (simp add: auth_challenge_def scenario_401_def truthy_def scenario_challenge_def str_def)

lemma scenario_authorization:
  "authorization_for md5 scenario_target (str ''Login to X'') (str ''abc123'') 1 scenario_random =
     str ''Digest username=\"admin\",realm=\"Login to X\",nonce=\"abc123\",uri=\"/cgi-bin/eventManager.cgi?action=attach&codes=[VideoMotion]\",qop=\"auth\",algorithm=\"MD5\",response=\"''
     @ md5 (md5 (str ''admin:Login to X:pass'')
            @ str '':abc123:00000001:000102030405060708090a0b0c0d0e0f1011121314151617:auth:''
            @ md5 (str ''GET:/cgi-bin/eventManager.cgi?action=attach&codes=[VideoMotion]''))
     @ str ''\",nc=\"00000001\",cnonce=\"000102030405060708090a0b0c0d0e0f1011121314151617\"''"
  by (simp add: scenario_eval digest_eval auth_eval js_eval)

subsection \<open>The claims about authentication and reconnection\<close>





lemma scenario_start:
  "DahuaEvents scenario_target =
     \<lparr>HEADERS = initial_HEADERS, in_flight = [0], streams = 0, timers = [], now = 0,
      sent = [axiosRequestConfig scenario_target initial_HEADERS], emitted = []\<rparr>"
  by (simp add: DahuaEvents_def connect_def)

lemma scenario_host: "target_host scenario_target = str ''10.0.0.5''"
  by (simp add: scenario_target_def)



text \<open>
  Claim C5, as amended. For every counter \<open>n\<close> the \<^verbatim>\<open>nc\<close> of the header is the last eight
  digits of \<open>n\<close>: the zero-padded 8-digit decimal of \<open>n mod 10^8\<close>, hence of \<open>n\<close> itself for
  every \<open>n\<close> below \<open>10^8\<close>. A retry after a solvable 401 continues with the counter of the
  rejected request plus one, and its header carries the \<^verbatim>\<open>nc\<close> of that new counter. The
  constructor's request has the counter 0, and the \<^verbatim>\<open>nc\<close> of the counter 1 is
  \<^verbatim>\<open>00000001\<close>.
\<close>

theorem nonce_count_is_last_eight_digits:
  "nonceCount n = zero_padded 8 (n mod 100000000)
   \<and> (n < 100000000 \<longrightarrow> nonceCount n = zero_padded 8 n)
   \<and> (\<forall>(s::engine) i realm nonce.
         i < length (in_flight s) \<and> auth_challenge err = Some (realm, nonce) \<longrightarrow>
         (\<exists>s'. step md5 t s (Rejected i err rnd) = Some s'
            \<and> in_flight s' = remove_nth i (in_flight s) @ [in_flight s ! i + 1]
            \<and> HEADERS s' (str ''authorization'') =
                 Some (authorization_for md5 t realm nonce (in_flight s ! i + 1) rnd)
            \<and> authorization_for md5 t realm nonce (in_flight s ! i + 1) rnd =
                 str ''Digest username='' @ quoted (user t)
                 @ str '',realm='' @ quoted realm
                 @ str '',nonce='' @ quoted nonce
                 @ str '',uri='' @ quoted (eventsWatchUri t)
                 @ str '',qop='' @ quoted (str ''auth'')
                 @ str '',algorithm='' @ quoted (str ''MD5'')
                 @ str '',response='' @ quoted
                     (reference_response md5 (user t) realm (pass t) (str ''GET'')
                        (eventsWatchUri t) nonce (nonceCount (in_flight s ! i + 1))
                        (toString_hex rnd))
                 @ str '',nc='' @ quoted (nonceCount (in_flight s ! i + 1))
                 @ str '',cnonce='' @ quoted (toString_hex rnd)))
   \<and> in_flight (DahuaEvents t) = [0]
   \<and> nonceCount (0 + 1) = str ''00000001''"
proof (intro conjI allI impI)
  show "nonceCount n = zero_padded 8 (n mod 100000000)"
    by (rule nonceCount_zero_padded)
next
  assume "n < 100000000"
  then show "nonceCount n = zero_padded 8 n"
    using nonceCount_zero_padded [of n] by simp
next
  fix s :: engine and i realm nonce
  assume a: "i < length (in_flight s) \<and> auth_challenge err = Some (realm, nonce)"
  let ?n = "in_flight s ! i + 1"
  have "authorization_for md5 t realm nonce ?n rnd =
                 str ''Digest username='' @ quoted (user t)
                 @ str '',realm='' @ quoted realm
                 @ str '',nonce='' @ quoted nonce
                 @ str '',uri='' @ quoted (eventsWatchUri t)
                 @ str '',qop='' @ quoted (str ''auth'')
                 @ str '',algorithm='' @ quoted (str ''MD5'')
                 @ str '',response='' @ quoted
                     (reference_response md5 (user t) realm (pass t) (str ''GET'')
                        (eventsWatchUri t) nonce (nonceCount ?n) (toString_hex rnd))
                 @ str '',nc='' @ quoted (nonceCount ?n)
                 @ str '',cnonce='' @ quoted (toString_hex rnd)"
    by (simp add: authorization_for_def digest_fields_def quoted_def str_def comma_def
        equals_sign_def)
  with a step_rejected_solved [of i s err realm nonce md5 t rnd]
  show "\<exists>s'. step md5 t s (Rejected i err rnd) = Some s'
            \<and> in_flight s' = remove_nth i (in_flight s) @ [?n]
            \<and> HEADERS s' (str ''authorization'') =
                 Some (authorization_for md5 t realm nonce ?n rnd)
            \<and> authorization_for md5 t realm nonce ?n rnd =
                 str ''Digest username='' @ quoted (user t)
                 @ str '',realm='' @ quoted realm
                 @ str '',nonce='' @ quoted nonce
                 @ str '',uri='' @ quoted (eventsWatchUri t)
                 @ str '',qop='' @ quoted (str ''auth'')
                 @ str '',algorithm='' @ quoted (str ''MD5'')
                 @ str '',response='' @ quoted
                     (reference_response md5 (user t) realm (pass t) (str ''GET'')
                        (eventsWatchUri t) nonce (nonceCount ?n) (toString_hex rnd))
                 @ str '',nc='' @ quoted (nonceCount ?n)
                 @ str '',cnonce='' @ quoted (toString_hex rnd)"
    by (simp del: step.simps)
next
  show "in_flight (DahuaEvents t) = [0]"
    by (simp add: DahuaEvents_def connect_def)
next
  show "nonceCount (0 + 1) = str ''00000001''"
    by (simp add: nonceCount_def slice_last_def decimal.simps digit_def str_def)
qed

text \<open>The theorem at the counter 42 and at the first 401 of the scenario: the retry holds
  the counter 1 and its header ends with \<^verbatim>\<open>nc="00000001"\<close> and the client nonce.\<close>

theorem nonce_count_scenario:
  "\<forall>md5.
     (42::nat) < 100000000 \<and> nonceCount 42 = str ''00000042''
   \<and> 0 < length (in_flight (DahuaEvents scenario_target))
   \<and> auth_challenge scenario_401 = Some (str ''Login to X'', str ''abc123'')
   \<and> (\<exists>s'. step md5 scenario_target (DahuaEvents scenario_target)
               (Rejected 0 scenario_401 scenario_random) = Some s'
          \<and> in_flight s' = [1]
          \<and> HEADERS s' (str ''authorization'') =
              Some (str ''Digest username=\"admin\",realm=\"Login to X\",nonce=\"abc123\",uri=\"/cgi-bin/eventManager.cgi?action=attach&codes=[VideoMotion]\",qop=\"auth\",algorithm=\"MD5\",response=\"''
                 @ md5 (md5 (str ''admin:Login to X:pass'')
                        @ str '':abc123:00000001:000102030405060708090a0b0c0d0e0f1011121314151617:auth:''
                        @ md5 (str ''GET:/cgi-bin/eventManager.cgi?action=attach&codes=[VideoMotion]''))
                 @ str ''\",nc=\"00000001\",cnonce=\"000102030405060708090a0b0c0d0e0f1011121314151617\"''))"
  (is "\<forall>md5. ?P md5")
proof
  fix md5 :: "js_string \<Rightarrow> js_string"
  note inst = nonce_count_is_last_eight_digits [of 42 scenario_401 md5 scenario_target scenario_random]
  have n: "nonceCount 42 = str ''00000042''"
    by (simp add: nonceCount_def slice_last_def decimal.simps digit_def str_def)
  have len: "0 < length (in_flight (DahuaEvents scenario_target))"
    by (simp add: scenario_start)
  from inst len scenario_auth_challenge obtain s' where
    s: "step md5 scenario_target (DahuaEvents scenario_target)
               (Rejected 0 scenario_401 scenario_random) = Some s'"
    and "in_flight s' = remove_nth 0 (in_flight (DahuaEvents scenario_target))
           @ [in_flight (DahuaEvents scenario_target) ! 0 + 1]"
    and "HEADERS s' (str ''authorization'') =
           Some (authorization_for md5 scenario_target (str ''Login to X'') (str ''abc123'')
                   (in_flight (DahuaEvents scenario_target) ! 0 + 1) scenario_random)"
    by blast
  then have "in_flight s' = [1]"
    and "HEADERS s' (str ''authorization'') =
           Some (authorization_for md5 scenario_target (str ''Login to X'') (str ''abc123'') 1
                   scenario_random)"
    by (simp_all add: scenario_start remove_nth_def)
  with s n len scenario_auth_challenge show "?P md5"
    by (simp add: scenario_authorization [unfolded One_nat_def] del: step.simps)
qed

text \<open>
  Claim C5 as stated fails at the counter \<open>10^8\<close>: the \<^verbatim>\<open>nc\<close> emitted is \<^verbatim>\<open>00000000\<close>, which
  reads as 0, while the zero-padded decimal of the counter is \<^verbatim>\<open>100000000\<close>; from the
  counter \<open>10^8 - 1\<close> to the next, the \<^verbatim>\<open>nc\<close> goes from \<^verbatim>\<open>99999999\<close> to \<^verbatim>\<open>00000000\<close>.
\<close>

theorem nonce_count_wraps_at_nine_digits:
  "nonceCount 100000000 = str ''00000000''
   \<and> decimal_value (nonceCount 100000000) = 0
   \<and> zero_padded 8 100000000 = str ''100000000''
   \<and> nonceCount 100000000 \<noteq> zero_padded 8 100000000
   \<and> nonceCount 99999999 = str ''99999999''"
  by (simp add: nonceCount_def slice_last_def zero_padded_def decimal.simps digit_def str_def
      decimal_value_def digit_value_def)

text \<open>
  Claim C6. When a stream with listeners ends or fails, the engine emits one debug signal
  and exactly one reconnecting signal and sets exactly one timer, due 10000 ms after the
  event whatever the state; it issues no request. A timer cannot fire before its due time,
  and when it fires the engine issues exactly one request, whose counter is 0.
\<close>

theorem stream_end_schedules_one_delayed_connect:
  assumes "0 < streams s"
  shows "step md5 t s StreamEnd =
           Some (s\<lparr>timers := timers s @ [now s + 10000],
                   emitted := emitted s @ [Debug (SocketEnded (target_host t)),
                                           Reconnecting (target_host t) 10000]\<rparr>)
       \<and> step md5 t s (StreamError d) =
           Some (s\<lparr>timers := timers s @ [now s + 10000],
                   emitted := emitted s @ [Debug (SocketErrored (target_host t) d),
                                           Reconnecting (target_host t) 10000]\<rparr>)
       \<and> (\<forall>(s'::engine) j. j < length (timers s') \<and> now s' < timers s' ! j \<longrightarrow>
             step md5 t s' (TimerFires j) = None)
       \<and> (\<forall>(s'::engine) j. j < length (timers s') \<and> timers s' ! j \<le> now s' \<longrightarrow>
             step md5 t s' (TimerFires j) =
               Some (s'\<lparr>timers := remove_nth j (timers s'),
                        in_flight := in_flight s' @ [0],
                        sent := sent s' @ [axiosRequestConfig t (HEADERS s')]\<rparr>))"
  using step_stream_end [OF assms] step_stream_error [OF assms]
  by (simp add: step_timer del: step.simps)

text \<open>The theorem in the scenario: the first request is fulfilled and the stream ends at
  time 0. The timer cannot fire after 9999 ms; after 10000 ms it fires and the one request
  in flight has the counter 0.\<close>

theorem stream_end_scenario:
  "\<forall>md5.
     map_option streams (run md5 scenario_target (DahuaEvents scenario_target)
        [Fulfilled 0 scenario_200]) = Some 1
   \<and> map_option (\<lambda>s. (timers s, in_flight s, length (sent s), emitted s))
       (run md5 scenario_target (DahuaEvents scenario_target)
          [Fulfilled 0 scenario_200, StreamEnd]) =
       Some ([10000], [], 1,
             [Debug (Connected (str ''10.0.0.5'')),
              Debug (ConnectionResponse (str ''10.0.0.5'') 200),
              Debug (SocketEnded (str ''10.0.0.5'')),
              Reconnecting (str ''10.0.0.5'') 10000])
   \<and> run md5 scenario_target (DahuaEvents scenario_target)
         [Fulfilled 0 scenario_200, StreamEnd, TimePasses 9999, TimerFires 0] = None
   \<and> map_option (\<lambda>s. (timers s, in_flight s, length (sent s)))
       (run md5 scenario_target (DahuaEvents scenario_target)
          [Fulfilled 0 scenario_200, StreamEnd, TimePasses 10000, TimerFires 0]) =
       Some ([], [0], 2)"
  (is "\<forall>md5. ?P md5")
proof
  fix md5 :: "js_string \<Rightarrow> js_string"
  define s1 where "s1 =
     \<lparr>HEADERS = initial_HEADERS, in_flight = [], streams = 1, timers = [], now = 0,
      sent = [axiosRequestConfig scenario_target initial_HEADERS],
      emitted = [Debug (Connected (str ''10.0.0.5'')),
                 Debug (ConnectionResponse (str ''10.0.0.5'') 200)]\<rparr>"
  have r1: "step md5 scenario_target (DahuaEvents scenario_target) (Fulfilled 0 scenario_200) = Some s1"
    by (simp add: scenario_start s1_def on_response_def remove_nth_def scenario_host
        scenario_200_def)
  have pos: "0 < streams s1" by (simp add: s1_def)
  note inst = stream_end_schedules_one_delayed_connect [OF pos, of md5 scenario_target]
  define s2 where "s2 = s1\<lparr>timers := [10000],
      emitted := emitted s1 @ [Debug (SocketEnded (str ''10.0.0.5'')),
                               Reconnecting (str ''10.0.0.5'') 10000]\<rparr>"
  have r2: "step md5 scenario_target s1 StreamEnd = Some s2"
    using inst [THEN conjunct1]
    by (simp add: s2_def s1_def scenario_host del: step.simps)
  have early: "step md5 scenario_target (s2\<lparr>now := 9999\<rparr>) (TimerFires 0) = None"
    using inst [THEN conjunct2, THEN conjunct2, THEN conjunct1, rule_format,
        of 0 "s2\<lparr>now := 9999\<rparr>"]
    by (simp add: s2_def s1_def del: step.simps)
  have due: "step md5 scenario_target (s2\<lparr>now := 10000\<rparr>) (TimerFires 0) =
      Some (s2\<lparr>now := 10000, timers := [], in_flight := [0],
               sent := sent s2 @ [axiosRequestConfig scenario_target (HEADERS s2)]\<rparr>)"
    using inst [THEN conjunct2, THEN conjunct2, THEN conjunct2, rule_format,
        of 0 "s2\<lparr>now := 10000\<rparr>"]
    by (simp add: s2_def s1_def remove_nth_def del: step.simps)
  have t1: "step md5 scenario_target s2 (TimePasses 9999) = Some (s2\<lparr>now := 9999\<rparr>)"
    and t2: "step md5 scenario_target s2 (TimePasses 10000) = Some (s2\<lparr>now := 10000\<rparr>)"
    by (simp_all add: s2_def s1_def)
  show "?P md5"
    by (simp add: r1 r2 early due t1 t2 del: step.simps) (simp add: s2_def s1_def)
qed

lemmas scenario_run = scenario_start on_failure_solved [OF scenario_auth_challenge]
  on_response_def on_end_def on_error_def on_close_def on_stream_data_def reconnect_def
  RECONNECT_INTERNAL_MS_def on_timeout_def connect_def remove_nth_def

text \<open>
  Claim C7, as amended. The header computed from a challenge is stored in the request
  headers and stays there: the only event that changes the headers is a rejection with a
  solvable 401, which stores the header computed from that challenge and the incremented
  counter. A timer that fires, that is the connection attempt entered after a reconnect
  delay, leaves the headers as they are and sends them, with the authorization header of
  an earlier cycle if there is one; what it resets is the counter, to 0.
\<close>

theorem authorization_header_is_kept_until_next_challenge:
  assumes "step md5 t s ev = Some s'"
  shows "(case ev of
            Rejected i err rnd \<Rightarrow>
              (case auth_challenge err of
                 Some (realm, nonce) \<Rightarrow>
                   HEADERS s' = (HEADERS s)(str ''authorization'' \<mapsto>
                     authorization_for md5 t realm nonce (in_flight s ! i + 1) rnd)
               | None \<Rightarrow> HEADERS s' = HEADERS s)
          | TimerFires j \<Rightarrow>
              HEADERS s' = HEADERS s \<and> in_flight s' = in_flight s @ [0]
              \<and> sent s' = sent s @ [axiosRequestConfig t (HEADERS s)]
          | _ \<Rightarrow> HEADERS s' = HEADERS s)"
proof (cases ev)
  case (Fulfilled i res)
  with assms show ?thesis
    by (auto simp add: foldl_perform_HEADERS split: if_splits)
next
  case (Rejected i err rnd)
  with assms have i: "i < length (in_flight s)"
    by (simp split: if_splits)
  show ?thesis
  proof (cases "auth_challenge err")
    case None
    from step_rejected_unsolved [OF i None, of md5 t rnd] assms Rejected None
    show ?thesis by (auto simp del: step.simps)
  next
    case (Some c)
    obtain realm nonce where c: "c = (realm, nonce)" by (cases c)
    from step_rejected_solved [OF i Some [unfolded c], of md5 t rnd] assms Rejected Some c
    show ?thesis by (auto simp del: step.simps)
  qed
next
  case (StreamData d)
  with assms show ?thesis
    by (auto simp add: foldl_perform_HEADERS split: if_splits)
next
  case StreamClose
  with assms show ?thesis
    by (auto simp add: foldl_perform_HEADERS split: if_splits)
next
  case (StreamError d)
  with assms show ?thesis
    by (auto simp add: foldl_perform_HEADERS split: if_splits)
next
  case StreamEnd
  with assms show ?thesis
    by (auto simp add: foldl_perform_HEADERS split: if_splits)
next
  case (TimerFires j)
  with assms show ?thesis
    by (auto simp add: step_timer remove_nth_def simp del: step.simps split: if_splits)
next
  case (TimePasses d)
  with assms show ?thesis by auto
qed

text \<open>
  The theorem in the scenario. The first request is rejected with the 401, the retry is
  fulfilled, the stream ends and 10000 ms pass: the headers hold the authorization header
  of that challenge. Then the timer fires, the headers are unchanged and the request
  sent carries them.
\<close>

theorem authorization_header_is_kept_scenario:
  "\<forall>md5. \<exists>s s'.
     run md5 scenario_target (DahuaEvents scenario_target)
       [Rejected 0 scenario_401 scenario_random, Fulfilled 0 scenario_200, StreamEnd,
        TimePasses 10000] = Some s
   \<and> HEADERS s (str ''authorization'') =
       Some (authorization_for md5 scenario_target (str ''Login to X'') (str ''abc123'') 1
               scenario_random)
   \<and> step md5 scenario_target s (TimerFires 0) = Some s'
   \<and> HEADERS s' = HEADERS s
   \<and> in_flight s' = [0]
   \<and> sent s' = sent s @ [axiosRequestConfig scenario_target (HEADERS s)]"
proof
  fix md5 :: "js_string \<Rightarrow> js_string"
  obtain s where s: "run md5 scenario_target (DahuaEvents scenario_target)
       [Rejected 0 scenario_401 scenario_random, Fulfilled 0 scenario_200, StreamEnd,
        TimePasses 10000] = Some s"
    and h: "HEADERS s (str ''authorization'') =
       Some (authorization_for md5 scenario_target (str ''Login to X'') (str ''abc123'') 1
               scenario_random)"
    and f: "in_flight s = []" and t: "timers s = [10000]" and n: "now s = 10000"
    by (simp add: scenario_run)
  from t n obtain s' where s': "step md5 scenario_target s (TimerFires 0) = Some s'"
    by (simp add: step_timer del: step.simps)
  from authorization_header_is_kept_until_next_challenge [OF s']
  have "HEADERS s' = HEADERS s \<and> in_flight s' = in_flight s @ [0]
      \<and> sent s' = sent s @ [axiosRequestConfig scenario_target (HEADERS s)]"
    by simp
  with s h s' f show "\<exists>s s'.
     run md5 scenario_target (DahuaEvents scenario_target)
       [Rejected 0 scenario_401 scenario_random, Fulfilled 0 scenario_200, StreamEnd,
        TimePasses 10000] = Some s
   \<and> HEADERS s (str ''authorization'') =
       Some (authorization_for md5 scenario_target (str ''Login to X'') (str ''abc123'') 1
               scenario_random)
   \<and> step md5 scenario_target s (TimerFires 0) = Some s'
   \<and> HEADERS s' = HEADERS s
   \<and> in_flight s' = [0]
   \<and> sent s' = sent s @ [axiosRequestConfig scenario_target (HEADERS s)]"
    by (intro exI [of _ s] exI [of _ s']) simp
qed

text \<open>
  Claim C7 as stated fails: in the scenario, the connection attempt entered after the
  reconnect delay has the counter 0 and its request carries the authorization header
  computed from the challenge of the cycle before, with the \<^verbatim>\<open>nc\<close> of the counter 1.
\<close>

theorem stale_authorization_header_is_sent_after_reconnect:
  "\<forall>md5.
     map_option (\<lambda>s. (in_flight s, request_headers (last (sent s)) (str ''authorization'')))
       (run md5 scenario_target (DahuaEvents scenario_target)
          [Rejected 0 scenario_401 scenario_random, Fulfilled 0 scenario_200, StreamEnd,
           TimePasses 10000, TimerFires 0]) =
     Some ([0],
           Some (str ''Digest username=\"admin\",realm=\"Login to X\",nonce=\"abc123\",uri=\"/cgi-bin/eventManager.cgi?action=attach&codes=[VideoMotion]\",qop=\"auth\",algorithm=\"MD5\",response=\"''
                 @ md5 (md5 (str ''admin:Login to X:pass'')
                        @ str '':abc123:00000001:000102030405060708090a0b0c0d0e0f1011121314151617:auth:''
                        @ md5 (str ''GET:/cgi-bin/eventManager.cgi?action=attach&codes=[VideoMotion]''))
                 @ str ''\",nc=\"00000001\",cnonce=\"000102030405060708090a0b0c0d0e0f1011121314151617\"''))"
proof
  fix md5 :: "js_string \<Rightarrow> js_string"
  have "map_option (\<lambda>s. (in_flight s, request_headers (last (sent s)) (str ''authorization'')))
       (run md5 scenario_target (DahuaEvents scenario_target)
          [Rejected 0 scenario_401 scenario_random, Fulfilled 0 scenario_200, StreamEnd,
           TimePasses 10000, TimerFires 0]) =
     Some ([0],
           Some (authorization_for md5 scenario_target (str ''Login to X'') (str ''abc123'') 1
                   scenario_random))"
    by (simp add: scenario_run axiosRequestConfig_def)
  then show "map_option (\<lambda>s. (in_flight s, request_headers (last (sent s)) (str ''authorization'')))
       (run md5 scenario_target (DahuaEvents scenario_target)
          [Rejected 0 scenario_401 scenario_random, Fulfilled 0 scenario_200, StreamEnd,
           TimePasses 10000, TimerFires 0]) =
     Some ([0],
           Some (str ''Digest username=\"admin\",realm=\"Login to X\",nonce=\"abc123\",uri=\"/cgi-bin/eventManager.cgi?action=attach&codes=[VideoMotion]\",qop=\"auth\",algorithm=\"MD5\",response=\"''
                 @ md5 (md5 (str ''admin:Login to X:pass'')
                        @ str '':abc123:00000001:000102030405060708090a0b0c0d0e0f1011121314151617:auth:''
                        @ md5 (str ''GET:/cgi-bin/eventManager.cgi?action=attach&codes=[VideoMotion]''))
                 @ str ''\",nc=\"00000001\",cnonce=\"000102030405060708090a0b0c0d0e0f1011121314151617\"''))"
    by (simp only: scenario_authorization)
qed

end
